theory Spec2Isabelle
  imports Main
begin

section \<open>The Node.js NPM build actions\<close>

text \<open>
  A model of \<^verbatim>\<open>aws_lambda_builders/workflows/nodejs_npm/actions.py\<close>: the three
  actions \<^verbatim>\<open>NodejsNpmPackAction\<close>, \<^verbatim>\<open>NodejsNpmInstallAction\<close> and
  \<^verbatim>\<open>NodejsNpmScriptAction\<close>, each with its \<^verbatim>\<open>execute\<close> method.

  The actions touch the outside world only through two collaborators handed to their
  constructors, \<^verbatim>\<open>osutils\<close> and \<^verbatim>\<open>subprocess_npm\<close>. A collaborator method is a
  function that takes the world, returns the world it leaves behind and either a value
  or the exception it raised. The world is a type parameter: the actions never look at it.
  The \<^verbatim>\<open>LOG.debug\<close> lines of the source have no part in the control flow and are left out.
\<close>

subsection \<open>Exceptions\<close>

text \<open>
  The exception classes that the module names or that its expressions raise, each with
  the text that \<^verbatim>\<open>str(ex)\<close> gives. \<open>ValueError\<close> stands for an instance of
  \<^verbatim>\<open>ValueError\<close> or of one of its subclasses (\<^verbatim>\<open>json.JSONDecodeError\<close> among them):
  an \<^verbatim>\<open>except ValueError\<close> clause catches them alike. \<open>OSError\<close> and \<open>TarError\<close>
  are what reading a file and opening an archive raise, \<open>RecursionError\<close> is what
  \<^verbatim>\<open>json.loads\<close> raises on a text nested deeper than the interpreter's recursion limit;
  none of the classes below is a subclass of another one.
\<close>

datatype exn =
    NpmExecutionError string
  | ActionFailedError string
  | ValueError string
  | AttributeError string
  | TypeError string
  | KeyError string
  | OSError string
  | TarError string
  | RecursionError string

type_synonym ('s, 'a) action = "'s \<Rightarrow> (exn + 'a) \<times> 's"

text \<open>Sequencing of two statements: the second one runs only when the first one returned.\<close>

definition and_then :: "('s, 'a) action \<Rightarrow> ('a \<Rightarrow> ('s, 'b) action) \<Rightarrow> ('s, 'b) action" where
  "and_then m f s = (case m s of (Inl e, s') \<Rightarrow> (Inl e, s') | (Inr x, s') \<Rightarrow> f x s')"

text \<open>
  \<^verbatim>\<open>try: m  except ...: raise ...\<close> where every handler raises again: \<open>h\<close> maps the
  exception raised inside the block to the one that leaves the statement (an exception no
  clause matches is mapped to itself).
\<close>

definition try_except :: "('s, 'a) action \<Rightarrow> (exn \<Rightarrow> exn) \<Rightarrow> ('s, 'a) action" where
  "try_except m h s = (case m s of (Inl e, s') \<Rightarrow> (Inl (h e), s') | (Inr x, s') \<Rightarrow> (Inr x, s'))"

text \<open>An expression without effect, evaluated inside a block.\<close>

definition eval_pure :: "exn + 'a \<Rightarrow> ('s, 'a) action" where
  "eval_pure r s = (r, s)"

subsection \<open>Collaborators and the record of their calls\<close>

record 'w OSUtils =
  abspath :: "string \<Rightarrow> ('w, string) action"
  dirname :: "string \<Rightarrow> ('w, string) action"
  joinpath :: "string \<Rightarrow> string \<Rightarrow> ('w, string) action"
  extract_tarfile :: "string \<Rightarrow> string \<Rightarrow> ('w, unit) action"
  get_text_contents :: "string \<Rightarrow> ('w, string) action"

record 'w SubprocessNpm =
  run :: "string list \<Rightarrow> string \<Rightarrow> ('w, string) action"

text \<open>
  To speak about which collaborator calls an action makes, and in which order, the state
  of an execution is the world together with the list of the calls made so far.
\<close>

datatype call =
    Abspath string
  | Dirname string
  | Joinpath string string
  | Extract_tarfile string string
  | Get_text_contents string
  | Run "string list" string

record 'w state =
  world :: 'w
  calls :: "call list"

definition invoke :: "call \<Rightarrow> ('w, 'a) action \<Rightarrow> ('w state, 'a) action" where
  "invoke c f s = (case f (world s) of (r, w') \<Rightarrow> (r, \<lparr>world = w', calls = calls s @ [c]\<rparr>))"

fun is_run :: "call \<Rightarrow> bool" where
  "is_run (Run args cwd) = True"
| "is_run c = False"

subsection \<open>NodejsNpmPackAction\<close>

text \<open>
  The constructor binds \<^verbatim>\<open>artifacts_dir, scratch_dir, manifest_path, osutils,
  subprocess_npm\<close>; \<^verbatim>\<open>execute\<close> takes no argument. The only \<^verbatim>\<open>except\<close> clause is
  \<^verbatim>\<open>except NpmExecutionError as ex: raise ActionFailedError(str(ex))\<close>.
\<close>

fun npm_handler :: "exn \<Rightarrow> exn" where
  "npm_handler (NpmExecutionError m) = ActionFailedError m"
| "npm_handler ex = ex"

definition NodejsNpmPackAction_execute ::
  "string \<Rightarrow> string \<Rightarrow> string \<Rightarrow> 'w OSUtils \<Rightarrow> 'w SubprocessNpm \<Rightarrow> ('w state, unit) action" where
  "NodejsNpmPackAction_execute artifacts_dir scratch_dir manifest_path osutils subprocess_npm =
     try_except
       (and_then (invoke (Dirname manifest_path) (dirname osutils manifest_path)) (\<lambda>d.
        and_then (invoke (Abspath d) (abspath osutils d)) (\<lambda>a.
        let package_path = ''file:'' @ a in
        and_then (invoke (Run [''pack'', ''-q'', package_path] scratch_dir)
                    (run subprocess_npm [''pack'', ''-q'', package_path] scratch_dir)) (\<lambda>tarfile_name.
        and_then (invoke (Joinpath scratch_dir tarfile_name)
                    (joinpath osutils scratch_dir tarfile_name)) (\<lambda>tarfile_path.
        invoke (Extract_tarfile tarfile_path artifacts_dir)
          (extract_tarfile osutils tarfile_path artifacts_dir))))))
       npm_handler"

subsection \<open>NodejsNpmInstallAction\<close>

definition NodejsNpmInstallAction_execute ::
  "string \<Rightarrow> 'w SubprocessNpm \<Rightarrow> ('w state, unit) action" where
  "NodejsNpmInstallAction_execute artifacts_dir subprocess_npm =
     try_except
       (and_then (invoke (Run [''install'', ''-q'', ''--no-audit'', ''--no-save'', ''--production''] artifacts_dir)
                    (run subprocess_npm [''install'', ''-q'', ''--no-audit'', ''--no-save'', ''--production'']
                       artifacts_dir)) (\<lambda>_.
        eval_pure (Inr ())))
       npm_handler"

subsection \<open>NodejsNpmScriptAction\<close>

text \<open>
  What \<^verbatim>\<open>json.loads\<close> returns: \<^verbatim>\<open>None\<close>, a \<^verbatim>\<open>bool\<close>, an \<^verbatim>\<open>int\<close>, a \<^verbatim>\<open>float\<close>
  (kept as its literal: the action never computes with it), a \<^verbatim>\<open>str\<close>, a \<^verbatim>\<open>list\<close>
  or a \<^verbatim>\<open>dict\<close> with \<^verbatim>\<open>str\<close> keys. A dict is the list of its items; looking a key up
  takes the first item with that key.
\<close>

datatype pyval =
    PyNone
  | PyBool bool
  | PyInt int
  | PyFloat string
  | PyStr string
  | PyList "pyval list"
  | PyDict "(string \<times> pyval) list"

fun type_name :: "pyval \<Rightarrow> string" where
  "type_name PyNone = ''NoneType''"
| "type_name (PyBool b) = ''bool''"
| "type_name (PyInt i) = ''int''"
| "type_name (PyFloat f) = ''float''"
| "type_name (PyStr s) = ''str''"
| "type_name (PyList xs) = ''list''"
| "type_name (PyDict kvs) = ''dict''"

definition quoted :: "string \<Rightarrow> string" where
  "quoted s = [CHR 0x27] @ s @ [CHR 0x27]"

text \<open>\<^verbatim>\<open>v.keys()\<close>: only a dict has the attribute.\<close>

fun keys :: "pyval \<Rightarrow> exn + string list" where
  "keys (PyDict kvs) = Inr (map fst kvs)"
| "keys v = Inl (AttributeError (quoted (type_name v) @ '' object has no attribute '' @ quoted ''keys''))"

text \<open>
  \<^verbatim>\<open>v[k]\<close> with a \<^verbatim>\<open>str\<close> key. The action subscripts only a value whose \<^verbatim>\<open>keys()\<close>
  holds \<open>k\<close>, so the failing cases are never reached from it.
\<close>

fun getitem :: "pyval \<Rightarrow> string \<Rightarrow> exn + pyval" where
  "getitem (PyDict kvs) k = (case map_of kvs k of Some v \<Rightarrow> Inr v | None \<Rightarrow> Inl (KeyError k))"
| "getitem (PyList xs) k = Inl (TypeError ''list indices must be integers or slices, not str'')"
| "getitem (PyStr s) k = Inl (TypeError ''string indices must be integers'')"
| "getitem v k = Inl (TypeError (quoted (type_name v) @ '' object is not subscriptable''))"

text \<open>
  The condition of the \<^verbatim>\<open>if\<close>:
  \<^verbatim>\<open>"scripts" in parsed_json.keys() and self.script_name in parsed_json["scripts"].keys()\<close>,
  with the short-circuit of \<^verbatim>\<open>and\<close>.
\<close>

definition script_declared :: "pyval \<Rightarrow> string \<Rightarrow> exn + bool" where
  "script_declared parsed_json script_name =
     (case keys parsed_json of
        Inl e \<Rightarrow> Inl e
      | Inr ks \<Rightarrow>
          if ''scripts'' \<in> set ks then
            (case getitem parsed_json ''scripts'' of
               Inl e \<Rightarrow> Inl e
             | Inr scripts \<Rightarrow>
                 (case keys scripts of
                    Inl e \<Rightarrow> Inl e
                  | Inr sks \<Rightarrow> Inr (script_name \<in> set sks)))
          else Inr False)"

text \<open>
  The two \<^verbatim>\<open>except\<close> clauses, in the order of the source: \<^verbatim>\<open>NpmExecutionError\<close>, then
  \<^verbatim>\<open>ValueError\<close> with the message
  \<^verbatim>\<open>"{} is not valid json: {}".format(self.manifest_path, str(ex))\<close>.
\<close>

fun script_handler :: "string \<Rightarrow> exn \<Rightarrow> exn" where
  "script_handler manifest_path (NpmExecutionError m) = ActionFailedError m"
| "script_handler manifest_path (ValueError m) =
     ActionFailedError (manifest_path @ '' is not valid json: '' @ m)"
| "script_handler manifest_path ex = ex"

text \<open>
  \<^verbatim>\<open>json.loads\<close> belongs to the Python library, not to this module; it is the first
  parameter. The others are the constructor's, in its order: \<^verbatim>\<open>working_dir,
  manifest_path, script_name, subprocess_npm, osutils\<close>.
\<close>

definition NodejsNpmScriptAction_execute ::
  "(string \<Rightarrow> exn + pyval) \<Rightarrow> string \<Rightarrow> string \<Rightarrow> string \<Rightarrow> 'w SubprocessNpm \<Rightarrow> 'w OSUtils
     \<Rightarrow> ('w state, unit) action" where
  "NodejsNpmScriptAction_execute json_loads working_dir manifest_path script_name subprocess_npm osutils =
     try_except
       (and_then (invoke (Get_text_contents manifest_path)
                    (get_text_contents osutils manifest_path)) (\<lambda>manifest_contents.
        and_then (eval_pure (json_loads manifest_contents)) (\<lambda>parsed_json.
        and_then (eval_pure (script_declared parsed_json script_name)) (\<lambda>declared.
        if declared then
          and_then (invoke (Run [''run'', script_name] working_dir)
                      (run subprocess_npm [''run'', script_name] working_dir)) (\<lambda>result.
          eval_pure (Inr ()))
        else eval_pure (Inr ())))))
       (script_handler manifest_path)"

subsection \<open>Test doubles\<close>

text \<open>
  Concrete collaborators, for running the actions on explicit inputs. The world is the list
  of the directories written to so far. \<open>stub_osutils\<close> answers path questions by plain
  concatenation, gives every manifest the directory \<open>project\<close>, and returns or raises
  what it is told to for the manifest's contents and for the extraction; \<open>stub_npm\<close>
  returns or raises what it is told to.
\<close>

definition stub_osutils :: "exn + string \<Rightarrow> exn + unit \<Rightarrow> string list OSUtils" where
  "stub_osutils contents extraction =
     \<lparr>abspath = (\<lambda>p w. (Inr (''/work/'' @ p), w)),
      dirname = (\<lambda>p w. (Inr ''project'', w)),
      joinpath = (\<lambda>a b w. (Inr (a @ ''/'' @ b), w)),
      extract_tarfile = (\<lambda>t d w. (extraction, w @ [d])),
      get_text_contents = (\<lambda>p w. (contents, w))\<rparr>"

definition stub_npm :: "exn + string \<Rightarrow> string list SubprocessNpm" where
  "stub_npm output = \<lparr>run = (\<lambda>args cwd w. (output, w @ [cwd]))\<rparr>"

text \<open>A manifest text with one script: \<^verbatim>\<open>{"scripts": {"<name>": "<command>"}}\<close>.\<close>

definition dq :: "string \<Rightarrow> string" where
  "dq s = [CHR 0x22] @ s @ [CHR 0x22]"

definition manifest_scripts :: "string \<Rightarrow> string \<Rightarrow> string" where
  "manifest_scripts name command =
     ''{'' @ dq ''scripts'' @ '': {'' @ dq name @ '': '' @ dq command @ ''}}''"

text \<open>What \<^verbatim>\<open>json.loads\<close> answers on the handful of texts used below.\<close>

definition stub_json_loads :: "string \<Rightarrow> exn + pyval" where
  "stub_json_loads t =
     (if t = ''{}'' then Inr (PyDict [])
      else if t = ''[]'' then Inr (PyList [])
      else if t = ''{'' @ dq ''scripts'' @ '': null}'' then Inr (PyDict [(''scripts'', PyNone)])
      else if t = manifest_scripts ''build'' ''tsc''
        then Inr (PyDict [(''scripts'', PyDict [(''build'', PyStr ''tsc'')])])
      else if t = manifest_scripts ''test'' ''mocha''
        then Inr (PyDict [(''scripts'', PyDict [(''test'', PyStr ''mocha'')])])
      else if t = manifest_scripts [] ''true''
        then Inr (PyDict [(''scripts'', PyDict [([], PyStr ''true'')])])
      else if t = ''{''
        then Inl (ValueError ''Expecting property name enclosed in double quotes: line 1 column 2 (char 1)'')
      else Inl (ValueError ''Expecting value: line 1 column 1 (char 0)''))"

text \<open>
  A text of 2000 unclosed brackets is not valid JSON, and it is nested deeper than the
  recursion limit of the interpreter (1000 unless changed): on it \<^verbatim>\<open>json.loads\<close> raises
  \<^verbatim>\<open>RecursionError\<close>, not its \<^verbatim>\<open>JSONDecodeError\<close>.
\<close>

definition unclosed_brackets :: string where
  "unclosed_brackets = replicate 2000 (CHR ''['')"

definition stub_json_loads_deep :: "string \<Rightarrow> exn + pyval" where
  "stub_json_loads_deep t =
     (if t = unclosed_brackets
        then Inl (RecursionError
          ''maximum recursion depth exceeded while decoding a JSON array from a unicode string'')
      else stub_json_loads t)"

definition fresh :: "string list state" where
  "fresh = \<lparr>world = [], calls = []\<rparr>"

section \<open>Properties\<close>

lemmas stubs = stub_osutils_def stub_npm_def stub_json_loads_def dq_def manifest_scripts_def fresh_def

lemmas exec_defs = try_except_def and_then_def invoke_def eval_pure_def

subsection \<open>Facts about the handlers and the blocks\<close>

lemma npm_handler_never_npm: "npm_handler e \<noteq> NpmExecutionError m"
  by (cases e) simp_all

lemma try_except_never_npm: "fst (try_except body npm_handler s) \<noteq> Inl (NpmExecutionError m)"
  by (auto simp: try_except_def npm_handler_never_npm split: prod.splits sum.splits)

text \<open>The pack action, once the two path questions are answered.\<close>

lemma pack_unfold:
  assumes "dirname osutils manifest_path (world s) = (Inr d, w1)"
    and "abspath osutils d w1 = (Inr a, w2)"
    and "run subprocess_npm [''pack'', ''-q'', ''file:'' @ a] scratch_dir w2 = (r, w3)"
  shows "NodejsNpmPackAction_execute artifacts_dir scratch_dir manifest_path osutils subprocess_npm s =
     (case r of
        Inl e \<Rightarrow> (Inl (npm_handler e),
           \<lparr>world = w3, calls = calls s @ [Dirname manifest_path, Abspath d,
              Run [''pack'', ''-q'', ''file:'' @ a] scratch_dir]\<rparr>)
      | Inr t \<Rightarrow>
          (case joinpath osutils scratch_dir t w3 of
             (Inl e, w4) \<Rightarrow> (Inl (npm_handler e),
               \<lparr>world = w4, calls = calls s @ [Dirname manifest_path, Abspath d,
                  Run [''pack'', ''-q'', ''file:'' @ a] scratch_dir, Joinpath scratch_dir t]\<rparr>)
           | (Inr p, w4) \<Rightarrow>
               (case extract_tarfile osutils p artifacts_dir w4 of
                  (Inl e, w5) \<Rightarrow> (Inl (npm_handler e),
                     \<lparr>world = w5, calls = calls s @ [Dirname manifest_path, Abspath d,
                        Run [''pack'', ''-q'', ''file:'' @ a] scratch_dir, Joinpath scratch_dir t,
                        Extract_tarfile p artifacts_dir]\<rparr>)
                | (Inr u, w5) \<Rightarrow> (Inr u,
                     \<lparr>world = w5, calls = calls s @ [Dirname manifest_path, Abspath d,
                        Run [''pack'', ''-q'', ''file:'' @ a] scratch_dir, Joinpath scratch_dir t,
                        Extract_tarfile p artifacts_dir]\<rparr>))))"
  using assms
  by (simp add: NodejsNpmPackAction_execute_def exec_defs Let_def split: prod.splits sum.splits)

lemma install_unfold:
  assumes "run subprocess_npm [''install'', ''-q'', ''--no-audit'', ''--no-save'', ''--production'']
             artifacts_dir (world s) = (r, w')"
  shows "NodejsNpmInstallAction_execute artifacts_dir subprocess_npm s =
     ((case r of Inl e \<Rightarrow> Inl (npm_handler e) | Inr out \<Rightarrow> Inr ()),
      \<lparr>world = w', calls = calls s @
         [Run [''install'', ''-q'', ''--no-audit'', ''--no-save'', ''--production''] artifacts_dir]\<rparr>)"
  using assms
  by (simp add: NodejsNpmInstallAction_execute_def exec_defs split: sum.splits)

lemma keys_not_dict:
  "\<forall>kvs. v \<noteq> PyDict kvs \<Longrightarrow>
     keys v = Inl (AttributeError (quoted (type_name v) @ '' object has no attribute '' @ quoted ''keys''))"
  by (cases v) simp_all

lemma map_of_key: "map_of kvs k = Some v \<Longrightarrow> k \<in> set (map fst kvs)"
  by (metis map_of_eq_None_iff option.distinct(1) set_map)

lemma script_declared_no_scripts:
  "''scripts'' \<notin> set (map fst kvs) \<Longrightarrow> script_declared (PyDict kvs) name = Inr False"
  by (simp add: script_declared_def)

lemma script_declared_scripts:
  "map_of kvs ''scripts'' = Some (PyDict sc) \<Longrightarrow>
     script_declared (PyDict kvs) name = Inr (name \<in> set (map fst sc))"
  using map_of_key [of kvs "''scripts''"] by (simp add: script_declared_def)

lemma script_declared_top_not_dict:
  "\<forall>kvs. v \<noteq> PyDict kvs \<Longrightarrow>
     script_declared v name =
       Inl (AttributeError (quoted (type_name v) @ '' object has no attribute '' @ quoted ''keys''))"
  by (simp add: script_declared_def keys_not_dict)

lemma script_declared_scripts_not_dict:
  "map_of kvs ''scripts'' = Some u \<Longrightarrow> \<forall>sc. u \<noteq> PyDict sc \<Longrightarrow>
     script_declared (PyDict kvs) name =
       Inl (AttributeError (quoted (type_name u) @ '' object has no attribute '' @ quoted ''keys''))"
  using map_of_key [of kvs "''scripts''"] by (simp add: script_declared_def keys_not_dict)

lemma script_read_fails:
  assumes "get_text_contents osutils manifest_path (world s) = (Inl e, w1)"
  shows "NodejsNpmScriptAction_execute json_loads working_dir manifest_path script_name subprocess_npm osutils s =
     (Inl (script_handler manifest_path e), \<lparr>world = w1, calls = calls s @ [Get_text_contents manifest_path]\<rparr>)"
  using assms by (simp add: NodejsNpmScriptAction_execute_def exec_defs)

text \<open>The script action, once the manifest has been read.\<close>

lemma script_unfold:
  assumes "get_text_contents osutils manifest_path (world s) = (Inr text, w1)"
  shows "NodejsNpmScriptAction_execute json_loads working_dir manifest_path script_name subprocess_npm osutils s =
     (case json_loads text of
        Inl e \<Rightarrow> (Inl (script_handler manifest_path e),
                   \<lparr>world = w1, calls = calls s @ [Get_text_contents manifest_path]\<rparr>)
      | Inr parsed_json \<Rightarrow>
          (case script_declared parsed_json script_name of
             Inl e \<Rightarrow> (Inl (script_handler manifest_path e),
                        \<lparr>world = w1, calls = calls s @ [Get_text_contents manifest_path]\<rparr>)
           | Inr declared \<Rightarrow>
               if declared then
                 (case run subprocess_npm [''run'', script_name] working_dir w1 of
                    (Inl e, w2) \<Rightarrow> (Inl (script_handler manifest_path e),
                       \<lparr>world = w2, calls = calls s @ [Get_text_contents manifest_path,
                          Run [''run'', script_name] working_dir]\<rparr>)
                  | (Inr out, w2) \<Rightarrow> (Inr (),
                       \<lparr>world = w2, calls = calls s @ [Get_text_contents manifest_path,
                          Run [''run'', script_name] working_dir]\<rparr>))
               else (Inr (), \<lparr>world = w1, calls = calls s @ [Get_text_contents manifest_path]\<rparr>)))"
  using assms
  by (simp add: NodejsNpmScriptAction_execute_def exec_defs split: sum.splits prod.splits)

subsection \<open>Error translation of the pack action\<close>

text \<open>
  The claim C1 says that every failure of the pack subcommand (step 2) or of the extraction
  (step 4) leaves \<^verbatim>\<open>NodejsNpmPackAction.execute\<close> as an \<^verbatim>\<open>ActionFailedError\<close>. The
  \<^verbatim>\<open>try\<close> statement has one clause, for \<^verbatim>\<open>NpmExecutionError\<close>, so an archive error
  raised by the extraction leaves the action as it is: here the stub extraction raises a
  \<^verbatim>\<open>TarError\<close>, and that is what the action raises.
\<close>

theorem pack_extraction_error_escapes:
  "fst (NodejsNpmPackAction_execute ''artifacts'' ''scratch'' ''project/package.json''
          (stub_osutils (Inr []) (Inl (TarError ''file could not be opened successfully'')))
          (stub_npm (Inr ''package-1.0.0.tgz'')) fresh)
     = Inl (TarError ''file could not be opened successfully'') \<and>
   fst (NodejsNpmPackAction_execute ''artifacts'' ''scratch'' ''project/package.json''
          (stub_osutils (Inr []) (Inl (TarError ''file could not be opened successfully'')))
          (stub_npm (Inr ''package-1.0.0.tgz'')) fresh)
     \<noteq> Inl (ActionFailedError ''file could not be opened successfully'')"
  by (simp add: NodejsNpmPackAction_execute_def exec_defs stubs)

text \<open>
  C1, amended. No execution of \<^verbatim>\<open>NodejsNpmPackAction.execute\<close> whatever raises an
  \<^verbatim>\<open>NpmExecutionError\<close>: this part has no condition. And when the pack subcommand
  (step 2) or the extraction (step 4) raises \<open>e\<close>, then an \<open>e\<close> of class
  \<^verbatim>\<open>NpmExecutionError\<close> with message \<open>m\<close> leaves the action as \<^verbatim>\<open>ActionFailedError\<close>
  with the same message \<open>m\<close>, and an \<open>e\<close> of any other class leaves the action unchanged.
\<close>

theorem pack_error_translation:
  "(\<forall>m. fst (NodejsNpmPackAction_execute artifacts_dir scratch_dir manifest_path osutils subprocess_npm s)
         \<noteq> Inl (NpmExecutionError m)) \<and>
   (dirname osutils manifest_path (world s) = (Inr d, w1) \<and>
    abspath osutils d w1 = (Inr a, w2) \<and>
    run subprocess_npm [''pack'', ''-q'', ''file:'' @ a] scratch_dir w2 = (r, w3) \<and>
    (r = Inl e \<or>
       (\<exists>t p w4 w5. r = Inr t \<and> joinpath osutils scratch_dir t w3 = (Inr p, w4) \<and>
          extract_tarfile osutils p artifacts_dir w4 = (Inl e, w5)))
    \<longrightarrow>
      (\<forall>m. e = NpmExecutionError m \<longrightarrow>
         fst (NodejsNpmPackAction_execute artifacts_dir scratch_dir manifest_path osutils subprocess_npm s)
           = Inl (ActionFailedError m)) \<and>
      ((\<forall>m. e \<noteq> NpmExecutionError m) \<longrightarrow>
         fst (NodejsNpmPackAction_execute artifacts_dir scratch_dir manifest_path osutils subprocess_npm s)
           = Inl e))"
proof -
  let ?res = "fst (NodejsNpmPackAction_execute artifacts_dir scratch_dir manifest_path osutils subprocess_npm s)"
  have never: "\<forall>m. ?res \<noteq> Inl (NpmExecutionError m)"
    by (simp add: NodejsNpmPackAction_execute_def try_except_never_npm)
  have raised: "(\<forall>m. e = NpmExecutionError m \<longrightarrow> ?res = Inl (ActionFailedError m)) \<and>
      ((\<forall>m. e \<noteq> NpmExecutionError m) \<longrightarrow> ?res = Inl e)"
    if d: "dirname osutils manifest_path (world s) = (Inr d, w1)"
      and a: "abspath osutils d w1 = (Inr a, w2)"
      and r: "run subprocess_npm [''pack'', ''-q'', ''file:'' @ a] scratch_dir w2 = (r, w3)"
      and e: "r = Inl e \<or>
        (\<exists>t p w4 w5. r = Inr t \<and> joinpath osutils scratch_dir t w3 = (Inr p, w4) \<and>
           extract_tarfile osutils p artifacts_dir w4 = (Inl e, w5))"
  proof -
    have res: "?res = Inl (npm_handler e)"
      using e by (auto simp: pack_unfold [OF d a r])
    have "\<forall>m. e = NpmExecutionError m \<longrightarrow> ?res = Inl (ActionFailedError m)"
      by (simp add: res)
    moreover have "(\<forall>m. e \<noteq> NpmExecutionError m) \<longrightarrow> ?res = Inl e"
      unfolding res by (cases e) simp_all
    ultimately show ?thesis by blast
  qed
  from never raised show ?thesis by blast
qed

text \<open>
  Three runs: the subcommand raises an \<^verbatim>\<open>NpmExecutionError\<close>, which is translated; the
  extraction raises an \<^verbatim>\<open>NpmExecutionError\<close>, which is translated; the extraction raises a
  \<^verbatim>\<open>TarError\<close>, which is not.
\<close>

theorem pack_error_translation_witness:
  "fst (NodejsNpmPackAction_execute ''artifacts'' ''scratch'' ''project/package.json''
          (stub_osutils (Inr []) (Inr ())) (stub_npm (Inl (NpmExecutionError ''NPM Failed: no package.json'')))
          fresh) = Inl (ActionFailedError ''NPM Failed: no package.json'') \<and>
   fst (NodejsNpmPackAction_execute ''artifacts'' ''scratch'' ''project/package.json''
          (stub_osutils (Inr []) (Inl (NpmExecutionError ''NPM Failed: late'')))
          (stub_npm (Inr ''package-1.0.0.tgz'')) fresh) = Inl (ActionFailedError ''NPM Failed: late'') \<and>
   fst (NodejsNpmPackAction_execute ''artifacts'' ''scratch'' ''project/package.json''
          (stub_osutils (Inr []) (Inl (TarError ''file could not be opened successfully'')))
          (stub_npm (Inr ''package-1.0.0.tgz'')) fresh) = Inl (TarError ''file could not be opened successfully'')"
proof -
  let ?npm_bad = "stub_npm (Inl (NpmExecutionError ''NPM Failed: no package.json''))"
  let ?npm_ok = "stub_npm (Inr ''package-1.0.0.tgz'')"
  let ?os_ok = "stub_osutils (Inr []) (Inr ())"
  let ?os_late = "stub_osutils (Inr []) (Inl (NpmExecutionError ''NPM Failed: late''))"
  let ?os_bad = "stub_osutils (Inr []) (Inl (TarError ''file could not be opened successfully''))"
  have h1: "dirname ?os_ok ''project/package.json'' (world fresh) = (Inr ''project'', []) \<and>
      abspath ?os_ok ''project'' [] = (Inr ''/work/project'', []) \<and>
      run ?npm_bad [''pack'', ''-q'', ''file:'' @ ''/work/project''] ''scratch'' []
        = (Inl (NpmExecutionError ''NPM Failed: no package.json''), [''scratch'']) \<and>
      (Inl (NpmExecutionError ''NPM Failed: no package.json'')
          = Inl (NpmExecutionError ''NPM Failed: no package.json'') \<or>
       (\<exists>t p w4 w5. (Inl (NpmExecutionError ''NPM Failed: no package.json'') :: exn + string) = Inr t \<and>
          joinpath ?os_ok ''scratch'' t [''scratch''] = (Inr p, w4) \<and>
          extract_tarfile ?os_ok p ''artifacts'' w4
            = (Inl (NpmExecutionError ''NPM Failed: no package.json''), w5)))"
    by (simp add: stubs)
  have h2: "dirname ?os_late ''project/package.json'' (world fresh) = (Inr ''project'', []) \<and>
      abspath ?os_late ''project'' [] = (Inr ''/work/project'', []) \<and>
      run ?npm_ok [''pack'', ''-q'', ''file:'' @ ''/work/project''] ''scratch'' []
        = (Inr ''package-1.0.0.tgz'', [''scratch'']) \<and>
      (Inr ''package-1.0.0.tgz'' = Inl (NpmExecutionError ''NPM Failed: late'') \<or>
       (\<exists>t p w4 w5. (Inr ''package-1.0.0.tgz'' :: exn + string) = Inr t \<and>
          joinpath ?os_late ''scratch'' t [''scratch''] = (Inr p, w4) \<and>
          extract_tarfile ?os_late p ''artifacts'' w4 = (Inl (NpmExecutionError ''NPM Failed: late''), w5)))"
    by (simp add: stubs)
  have h3: "dirname ?os_bad ''project/package.json'' (world fresh) = (Inr ''project'', []) \<and>
      abspath ?os_bad ''project'' [] = (Inr ''/work/project'', []) \<and>
      run ?npm_ok [''pack'', ''-q'', ''file:'' @ ''/work/project''] ''scratch'' []
        = (Inr ''package-1.0.0.tgz'', [''scratch'']) \<and>
      (Inr ''package-1.0.0.tgz'' = Inl (TarError ''file could not be opened successfully'') \<or>
       (\<exists>t p w4 w5. (Inr ''package-1.0.0.tgz'' :: exn + string) = Inr t \<and>
          joinpath ?os_bad ''scratch'' t [''scratch''] = (Inr p, w4) \<and>
          extract_tarfile ?os_bad p ''artifacts'' w4
            = (Inl (TarError ''file could not be opened successfully''), w5)))"
    by (simp add: stubs)
  from pack_error_translation [THEN conjunct2, THEN mp, OF h1]
    pack_error_translation [THEN conjunct2, THEN mp, OF h2]
    pack_error_translation [THEN conjunct2, THEN mp, OF h3]
  show ?thesis by simp
qed

subsection \<open>Message pass-through of executor faults\<close>

text \<open>
  C2: when the executor raises an \<^verbatim>\<open>NpmExecutionError\<close> with message \<open>m\<close> in
  \<^verbatim>\<open>NodejsNpmPackAction.execute\<close> or in \<^verbatim>\<open>NodejsNpmInstallAction.execute\<close>, the action
  raises \<^verbatim>\<open>ActionFailedError\<close> with the message \<open>m\<close>, unmodified. (In the pack action the
  executor is reached once the directory of the manifest and its absolute path are there.)
\<close>

theorem executor_fault_message_passthrough:
  "(dirname osutils manifest_path (world s) = (Inr d, w1) \<and>
    abspath osutils d w1 = (Inr a, w2) \<and>
    run subprocess_npm [''pack'', ''-q'', ''file:'' @ a] scratch_dir w2 = (Inl (NpmExecutionError m), w3)
    \<longrightarrow> fst (NodejsNpmPackAction_execute artifacts_dir scratch_dir manifest_path osutils subprocess_npm s)
          = Inl (ActionFailedError m)) \<and>
   (run subprocess_npm [''install'', ''-q'', ''--no-audit'', ''--no-save'', ''--production'']
      artifacts_dir (world s) = (Inl (NpmExecutionError m), w')
    \<longrightarrow> fst (NodejsNpmInstallAction_execute artifacts_dir subprocess_npm s) = Inl (ActionFailedError m))"
proof (intro conjI impI)
  assume "dirname osutils manifest_path (world s) = (Inr d, w1) \<and>
    abspath osutils d w1 = (Inr a, w2) \<and>
    run subprocess_npm [''pack'', ''-q'', ''file:'' @ a] scratch_dir w2 = (Inl (NpmExecutionError m), w3)"
  then show "fst (NodejsNpmPackAction_execute artifacts_dir scratch_dir manifest_path osutils subprocess_npm s)
      = Inl (ActionFailedError m)"
    by (simp add: pack_unfold)
next
  assume "run subprocess_npm [''install'', ''-q'', ''--no-audit'', ''--no-save'', ''--production'']
      artifacts_dir (world s) = (Inl (NpmExecutionError m), w')"
  then show "fst (NodejsNpmInstallAction_execute artifacts_dir subprocess_npm s) = Inl (ActionFailedError m)"
    by (simp add: install_unfold)
qed

theorem executor_fault_message_passthrough_witness:
  "fst (NodejsNpmPackAction_execute ''artifacts'' ''scratch'' ''project/package.json''
          (stub_osutils (Inr []) (Inr ())) (stub_npm (Inl (NpmExecutionError ''NPM Failed: E404'')))
          fresh) = Inl (ActionFailedError ''NPM Failed: E404'') \<and>
   fst (NodejsNpmInstallAction_execute ''artifacts'' (stub_npm (Inl (NpmExecutionError ''NPM Failed: E404'')))
          fresh) = Inl (ActionFailedError ''NPM Failed: E404'')"
proof -
  let ?npm = "stub_npm (Inl (NpmExecutionError ''NPM Failed: E404''))"
  let ?os = "stub_osutils (Inr []) (Inr ())"
  have pack: "dirname ?os ''project/package.json'' (world fresh) = (Inr ''project'', []) \<and>
      abspath ?os ''project'' [] = (Inr ''/work/project'', []) \<and>
      run ?npm [''pack'', ''-q'', ''file:'' @ ''/work/project''] ''scratch'' []
        = (Inl (NpmExecutionError ''NPM Failed: E404''), [''scratch''])"
    by (simp add: stubs)
  have install: "run ?npm [''install'', ''-q'', ''--no-audit'', ''--no-save'', ''--production'']
      ''artifacts'' (world fresh) = (Inl (NpmExecutionError ''NPM Failed: E404''), [''artifacts''])"
    by (simp add: stubs)
  from executor_fault_message_passthrough [THEN conjunct1, THEN mp, OF pack]
    executor_fault_message_passthrough [THEN conjunct2, THEN mp, OF install]
  show ?thesis by simp
qed

subsection \<open>The install action\<close>

text \<open>
  C6: every execution of \<^verbatim>\<open>NodejsNpmInstallAction.execute\<close> makes exactly one executor
  call, with the arguments \<^verbatim>\<open>['install', '-q', '--no-audit', '--no-save', '--production']\<close>
  and with the artifacts directory as working directory: that call is the only one added
  to the calls made before, and the world is the one that call leaves.
\<close>

theorem install_single_invocation:
  "snd (NodejsNpmInstallAction_execute artifacts_dir subprocess_npm s) =
     \<lparr>world = snd (run subprocess_npm [''install'', ''-q'', ''--no-audit'', ''--no-save'', ''--production'']
                     artifacts_dir (world s)),
      calls = calls s @
        [Run [''install'', ''-q'', ''--no-audit'', ''--no-save'', ''--production''] artifacts_dir]\<rparr> \<and>
   filter is_run (calls (snd (NodejsNpmInstallAction_execute artifacts_dir subprocess_npm s))) =
     filter is_run (calls s) @
       [Run [''install'', ''-q'', ''--no-audit'', ''--no-save'', ''--production''] artifacts_dir]"
  by (cases "run subprocess_npm [''install'', ''-q'', ''--no-audit'', ''--no-save'', ''--production'']
               artifacts_dir (world s)")
     (simp add: install_unfold)

subsection \<open>The sequence of a successful pack\<close>

text \<open>
  C7: when \<^verbatim>\<open>NodejsNpmPackAction.execute\<close> returns, it has made these calls and no
  other, in this order, each of which returned: \<^verbatim>\<open>dirname\<close> of the manifest path, giving
  \<open>d\<close>; \<^verbatim>\<open>abspath\<close> of \<open>d\<close>, giving \<open>a\<close>; the executor with \<^verbatim>\<open>['pack', '-q', 'file:' + a]\<close>
  in the scratch directory, giving the archive name \<open>t\<close>; \<^verbatim>\<open>joinpath\<close> of the scratch
  directory and \<open>t\<close>, giving \<open>p\<close>; \<^verbatim>\<open>extract_tarfile\<close> of \<open>p\<close> into the artifacts directory.
\<close>

theorem pack_success_sequence:
  assumes "NodejsNpmPackAction_execute artifacts_dir scratch_dir manifest_path osutils subprocess_npm s
             = (Inr (), s')"
  shows "\<exists>d w1 a w2 t w3 p w4.
      dirname osutils manifest_path (world s) = (Inr d, w1) \<and>
      abspath osutils d w1 = (Inr a, w2) \<and>
      run subprocess_npm [''pack'', ''-q'', ''file:'' @ a] scratch_dir w2 = (Inr t, w3) \<and>
      joinpath osutils scratch_dir t w3 = (Inr p, w4) \<and>
      extract_tarfile osutils p artifacts_dir w4 = (Inr (), world s') \<and>
      calls s' = calls s @ [Dirname manifest_path, Abspath d,
         Run [''pack'', ''-q'', ''file:'' @ a] scratch_dir, Joinpath scratch_dir t,
         Extract_tarfile p artifacts_dir]"
  using assms
  by (auto simp: NodejsNpmPackAction_execute_def exec_defs Let_def split: prod.splits sum.splits)

theorem pack_success_sequence_witness:
  "NodejsNpmPackAction_execute ''artifacts'' ''scratch'' ''project/package.json''
     (stub_osutils (Inr []) (Inr ())) (stub_npm (Inr ''package-1.0.0.tgz'')) fresh
     = (Inr (), \<lparr>world = [''scratch'', ''artifacts''],
          calls = [Dirname ''project/package.json'', Abspath ''project'',
            Run [''pack'', ''-q'', ''file:/work/project''] ''scratch'',
            Joinpath ''scratch'' ''package-1.0.0.tgz'',
            Extract_tarfile ''scratch/package-1.0.0.tgz'' ''artifacts'']\<rparr>) \<and>
   (\<exists>d a t p.
      dirname (stub_osutils (Inr []) (Inr ())) ''project/package.json'' [] = (Inr d, []) \<and>
      abspath (stub_osutils (Inr []) (Inr ())) d [] = (Inr a, []) \<and>
      run (stub_npm (Inr ''package-1.0.0.tgz'')) [''pack'', ''-q'', ''file:'' @ a] ''scratch'' []
        = (Inr t, [''scratch'']) \<and>
      joinpath (stub_osutils (Inr []) (Inr ())) ''scratch'' t [''scratch''] = (Inr p, [''scratch'']) \<and>
      extract_tarfile (stub_osutils (Inr []) (Inr ())) p ''artifacts'' [''scratch'']
        = (Inr (), [''scratch'', ''artifacts'']))"
proof -
  have ok: "NodejsNpmPackAction_execute ''artifacts'' ''scratch'' ''project/package.json''
     (stub_osutils (Inr []) (Inr ())) (stub_npm (Inr ''package-1.0.0.tgz'')) fresh
     = (Inr (), \<lparr>world = [''scratch'', ''artifacts''],
          calls = [Dirname ''project/package.json'', Abspath ''project'',
            Run [''pack'', ''-q'', ''file:/work/project''] ''scratch'',
            Joinpath ''scratch'' ''package-1.0.0.tgz'',
            Extract_tarfile ''scratch/package-1.0.0.tgz'' ''artifacts'']\<rparr>)"
    by (simp add: NodejsNpmPackAction_execute_def exec_defs stubs)
  from pack_success_sequence [OF ok] obtain d w1 a w2 t w3 p w4 where
      "dirname (stub_osutils (Inr []) (Inr ())) ''project/package.json'' (world fresh) = (Inr d, w1)"
      "abspath (stub_osutils (Inr []) (Inr ())) d w1 = (Inr a, w2)"
      "run (stub_npm (Inr ''package-1.0.0.tgz'')) [''pack'', ''-q'', ''file:'' @ a] ''scratch'' w2 = (Inr t, w3)"
      "joinpath (stub_osutils (Inr []) (Inr ())) ''scratch'' t w3 = (Inr p, w4)"
      "extract_tarfile (stub_osutils (Inr []) (Inr ())) p ''artifacts'' w4
         = (Inr (), [''scratch'', ''artifacts''])"
    by auto
  then have "dirname (stub_osutils (Inr []) (Inr ())) ''project/package.json'' [] = (Inr d, []) \<and>
      abspath (stub_osutils (Inr []) (Inr ())) d [] = (Inr a, []) \<and>
      run (stub_npm (Inr ''package-1.0.0.tgz'')) [''pack'', ''-q'', ''file:'' @ a] ''scratch'' []
        = (Inr t, [''scratch'']) \<and>
      joinpath (stub_osutils (Inr []) (Inr ())) ''scratch'' t [''scratch''] = (Inr p, [''scratch'']) \<and>
      extract_tarfile (stub_osutils (Inr []) (Inr ())) p ''artifacts'' [''scratch'']
        = (Inr (), [''scratch'', ''artifacts''])"
    by (auto simp: stubs)
  with ok show ?thesis by blast
qed

subsection \<open>The script action: the no-op path\<close>

text \<open>
  C3: when the manifest parses to an object that has no \<^verbatim>\<open>scripts\<close> key, or whose
  \<^verbatim>\<open>scripts\<close> value is an object without the requested script name,
  \<^verbatim>\<open>NodejsNpmScriptAction.execute\<close> returns without raising and calls the executor zero
  times: reading the manifest is the only call it makes.
\<close>

theorem script_absent_is_noop:
  assumes "get_text_contents osutils manifest_path (world s) = (Inr text, w1)"
    and "json_loads text = Inr (PyDict kvs)"
    and "''scripts'' \<notin> set (map fst kvs) \<or>
         (\<exists>sc. map_of kvs ''scripts'' = Some (PyDict sc) \<and> script_name \<notin> set (map fst sc))"
  shows "NodejsNpmScriptAction_execute json_loads working_dir manifest_path script_name subprocess_npm osutils s =
           (Inr (), \<lparr>world = w1, calls = calls s @ [Get_text_contents manifest_path]\<rparr>) \<and>
         filter is_run (calls (snd (NodejsNpmScriptAction_execute json_loads working_dir manifest_path
            script_name subprocess_npm osutils s))) = filter is_run (calls s)"
proof -
  have "script_declared (PyDict kvs) script_name = Inr False"
    using assms(3) by (auto simp: script_declared_no_scripts script_declared_scripts)
  then show ?thesis
    by (simp add: script_unfold [OF assms(1)] assms(2))
qed

text \<open>
  Two runs asked for \<^verbatim>\<open>build\<close>: on the manifest \<^verbatim>\<open>{}\<close> and on a manifest that
  declares the script \<^verbatim>\<open>test\<close> only.
\<close>

theorem script_absent_is_noop_witness:
  "NodejsNpmScriptAction_execute stub_json_loads ''artifacts'' ''project/package.json'' ''build''
     (stub_npm (Inr ''done'')) (stub_osutils (Inr ''{}'') (Inr ())) fresh
     = (Inr (), \<lparr>world = [], calls = [Get_text_contents ''project/package.json'']\<rparr>) \<and>
   NodejsNpmScriptAction_execute stub_json_loads ''artifacts'' ''project/package.json'' ''build''
     (stub_npm (Inr ''done'')) (stub_osutils (Inr (manifest_scripts ''test'' ''mocha'')) (Inr ())) fresh
     = (Inr (), \<lparr>world = [], calls = [Get_text_contents ''project/package.json'']\<rparr>)"
proof -
  have rd: "get_text_contents (stub_osutils (Inr c) (Inr ())) ''project/package.json'' (world fresh)
      = (Inr c, [])" for c
    by (simp add: stubs)
  have p1: "stub_json_loads ''{}'' = Inr (PyDict [])"
    by (simp add: stubs)
  have c1: "''scripts'' \<notin> set (map fst ([] :: (string \<times> pyval) list)) \<or>
      (\<exists>sc. map_of ([] :: (string \<times> pyval) list) ''scripts'' = Some (PyDict sc) \<and>
         ''build'' \<notin> set (map fst sc))"
    by simp
  have p2: "stub_json_loads (manifest_scripts ''test'' ''mocha'')
      = Inr (PyDict [(''scripts'', PyDict [(''test'', PyStr ''mocha'')])])"
    by (simp add: stubs)
  have c2: "''scripts'' \<notin> set (map fst [(''scripts'', PyDict [(''test'', PyStr ''mocha'')])]) \<or>
      (\<exists>sc. map_of [(''scripts'', PyDict [(''test'', PyStr ''mocha'')])] ''scripts'' = Some (PyDict sc) \<and>
         ''build'' \<notin> set (map fst sc))"
    by simp
  from script_absent_is_noop [where json_loads = stub_json_loads, OF rd p1 c1, THEN conjunct1] script_absent_is_noop [where json_loads = stub_json_loads, OF rd p2 c2, THEN conjunct1]
  show ?thesis by (simp add: fresh_def)
qed

subsection \<open>The script action: a manifest that is not valid JSON\<close>

text \<open>
  The claim C4 says that every manifest text that is not valid JSON makes
  \<^verbatim>\<open>NodejsNpmScriptAction.execute\<close> raise an \<^verbatim>\<open>ActionFailedError\<close>. The clause that
  translates the parse failure is \<^verbatim>\<open>except ValueError\<close>. On a text of 2000 unclosed
  brackets, which is not valid JSON, \<^verbatim>\<open>json.loads\<close> raises a \<^verbatim>\<open>RecursionError\<close>, which
  is no \<^verbatim>\<open>ValueError\<close>: the action raises that \<^verbatim>\<open>RecursionError\<close>.
\<close>

theorem script_deep_nesting_escapes:
  "fst (NodejsNpmScriptAction_execute stub_json_loads_deep ''artifacts'' ''project/package.json'' ''build''
          (stub_npm (Inr ''done'')) (stub_osutils (Inr unclosed_brackets) (Inr ())) fresh)
     = Inl (RecursionError
          ''maximum recursion depth exceeded while decoding a JSON array from a unicode string'') \<and>
   fst (NodejsNpmScriptAction_execute stub_json_loads_deep ''artifacts'' ''project/package.json'' ''build''
          (stub_npm (Inr ''done'')) (stub_osutils (Inr unclosed_brackets) (Inr ())) fresh)
     \<noteq> Inl (ActionFailedError (''project/package.json is not valid json: '' @
          ''maximum recursion depth exceeded while decoding a JSON array from a unicode string''))"
  by (simp add: NodejsNpmScriptAction_execute_def exec_defs stub_osutils_def stub_json_loads_deep_def
        fresh_def)

text \<open>
  C4, amended: when \<^verbatim>\<open>json.loads\<close> raises a \<^verbatim>\<open>ValueError\<close> with some diagnostic on the
  text of the manifest (the failure of its parser, \<^verbatim>\<open>json.JSONDecodeError\<close>, is one),
  \<^verbatim>\<open>NodejsNpmScriptAction.execute\<close> raises \<^verbatim>\<open>ActionFailedError\<close> with the message made
  of the manifest path, the words \<^verbatim>\<open> is not valid json: \<close> and the diagnostic; it has
  called nothing but the read.
\<close>

theorem script_invalid_json_fails:
  assumes "get_text_contents osutils manifest_path (world s) = (Inr text, w1)"
    and "json_loads text = Inl (ValueError diagnostic)"
  shows "NodejsNpmScriptAction_execute json_loads working_dir manifest_path script_name subprocess_npm osutils s =
           (Inl (ActionFailedError (manifest_path @ '' is not valid json: '' @ diagnostic)),
            \<lparr>world = w1, calls = calls s @ [Get_text_contents manifest_path]\<rparr>)"
  by (simp add: script_unfold [OF assms(1)] assms(2))

theorem script_invalid_json_fails_witness:
  "NodejsNpmScriptAction_execute stub_json_loads ''artifacts'' ''project/package.json'' ''build''
     (stub_npm (Inr ''done'')) (stub_osutils (Inr ''{'') (Inr ())) fresh
     = (Inl (ActionFailedError (''project/package.json is not valid json: '' @
          ''Expecting property name enclosed in double quotes: line 1 column 2 (char 1)'')),
        \<lparr>world = [], calls = [Get_text_contents ''project/package.json'']\<rparr>)"
proof -
  have rd: "get_text_contents (stub_osutils (Inr ''{'') (Inr ())) ''project/package.json'' (world fresh)
      = (Inr ''{'', [])"
    by (simp add: stubs)
  have bad: "stub_json_loads ''{''
      = Inl (ValueError ''Expecting property name enclosed in double quotes: line 1 column 2 (char 1)'')"
    by (simp add: stubs)
  from script_invalid_json_fails [where json_loads = stub_json_loads, OF rd bad]
  show ?thesis by (simp add: fresh_def)
qed

subsection \<open>The script action: a declared script\<close>

text \<open>
  C5: when the manifest parses to an object whose \<^verbatim>\<open>scripts\<close> value is an object with
  the requested script name among its keys, \<^verbatim>\<open>NodejsNpmScriptAction.execute\<close> calls the
  executor exactly once, with the arguments \<^verbatim>\<open>['run', script_name]\<close> and the working
  directory of the action; and when that call returns, whatever its output (the empty string
  included), the action returns without raising.
\<close>

theorem script_present_runs_once:
  assumes "get_text_contents osutils manifest_path (world s) = (Inr text, w1)"
    and "json_loads text = Inr (PyDict kvs)"
    and "map_of kvs ''scripts'' = Some (PyDict sc)"
    and "script_name \<in> set (map fst sc)"
  shows "snd (NodejsNpmScriptAction_execute json_loads working_dir manifest_path script_name subprocess_npm osutils s) =
           \<lparr>world = snd (run subprocess_npm [''run'', script_name] working_dir w1),
            calls = calls s @ [Get_text_contents manifest_path, Run [''run'', script_name] working_dir]\<rparr> \<and>
         filter is_run (calls (snd (NodejsNpmScriptAction_execute json_loads working_dir manifest_path
            script_name subprocess_npm osutils s)))
           = filter is_run (calls s) @ [Run [''run'', script_name] working_dir] \<and>
         (\<forall>out. fst (run subprocess_npm [''run'', script_name] working_dir w1) = Inr out \<longrightarrow>
            fst (NodejsNpmScriptAction_execute json_loads working_dir manifest_path script_name
                   subprocess_npm osutils s) = Inr ())"
proof -
  have "script_declared (PyDict kvs) script_name = Inr True"
    using assms(3,4) by (simp add: script_declared_scripts)
  then show ?thesis
    by (cases "run subprocess_npm [''run'', script_name] working_dir w1")
       (auto simp: script_unfold [OF assms(1)] assms(2) split: sum.splits)
qed

text \<open>A run of \<^verbatim>\<open>build\<close>, declared as \<^verbatim>\<open>tsc\<close>, whose output is the empty string.\<close>

theorem script_present_runs_once_witness:
  "NodejsNpmScriptAction_execute stub_json_loads ''artifacts'' ''project/package.json'' ''build''
     (stub_npm (Inr [])) (stub_osutils (Inr (manifest_scripts ''build'' ''tsc'')) (Inr ())) fresh
     = (Inr (), \<lparr>world = [''artifacts''],
          calls = [Get_text_contents ''project/package.json'', Run [''run'', ''build''] ''artifacts'']\<rparr>)"
proof -
  let ?exec = "NodejsNpmScriptAction_execute stub_json_loads ''artifacts'' ''project/package.json'' ''build''
     (stub_npm (Inr [])) (stub_osutils (Inr (manifest_scripts ''build'' ''tsc'')) (Inr ())) fresh"
  have rd: "get_text_contents (stub_osutils (Inr (manifest_scripts ''build'' ''tsc'')) (Inr ()))
      ''project/package.json'' (world fresh) = (Inr (manifest_scripts ''build'' ''tsc''), [])"
    by (simp add: stubs)
  have parsed: "stub_json_loads (manifest_scripts ''build'' ''tsc'')
      = Inr (PyDict [(''scripts'', PyDict [(''build'', PyStr ''tsc'')])])"
    by (simp add: stubs)
  have scripts: "map_of [(''scripts'', PyDict [(''build'', PyStr ''tsc'')])] ''scripts''
      = Some (PyDict [(''build'', PyStr ''tsc'')])"
    by simp
  have member: "''build'' \<in> set (map fst [(''build'', PyStr ''tsc'')])"
    by simp
  have out: "fst (run (stub_npm (Inr [])) [''run'', ''build''] ''artifacts'' []) = Inr []"
    by (simp add: stubs)
  note inst = script_present_runs_once [where json_loads = stub_json_loads
      and working_dir = "''artifacts''" and subprocess_npm = "stub_npm (Inr [])", OF rd parsed scripts member]
  from inst [THEN conjunct1] have "snd ?exec = \<lparr>world = [''artifacts''],
      calls = [Get_text_contents ''project/package.json'', Run [''run'', ''build''] ''artifacts'']\<rparr>"
    by (simp add: stubs)
  moreover from inst [THEN conjunct2, THEN conjunct2, THEN spec, THEN mp, OF out]
  have "fst ?exec = Inr ()" .
  ultimately show ?thesis by (simp add: prod_eq_iff)
qed

subsection \<open>The script action: the empty script name\<close>

text \<open>
  C8: the empty string as script name is looked up like any other name. On a manifest with
  a \<^verbatim>\<open>scripts\<close> object, the outcome of \<^verbatim>\<open>NodejsNpmScriptAction.execute\<close> is given by one
  and the same rule for an arbitrary script name and for the empty one. When the name is a
  key of the \<^verbatim>\<open>scripts\<close> object, the executor is called once with \<^verbatim>\<open>['run', name]\<close> in the
  working directory, and the action returns when that call returns and raises what the
  handlers make of its exception when it raises; when the name is not a key, the action
  makes no executor call and returns.
\<close>

theorem script_empty_name_not_special:
  assumes "get_text_contents osutils manifest_path (world s) = (Inr text, w1)"
    and "json_loads text = Inr (PyDict kvs)"
    and "map_of kvs ''scripts'' = Some (PyDict sc)"
  shows "NodejsNpmScriptAction_execute json_loads working_dir manifest_path script_name subprocess_npm osutils s =
           (if script_name \<in> set (map fst sc) then
              (case run subprocess_npm [''run'', script_name] working_dir w1 of
                 (Inl e, w2) \<Rightarrow>
                   (Inl (script_handler manifest_path e),
                    \<lparr>world = w2, calls = calls s @ [Get_text_contents manifest_path,
                       Run [''run'', script_name] working_dir]\<rparr>)
               | (Inr out, w2) \<Rightarrow>
                   (Inr (),
                    \<lparr>world = w2, calls = calls s @ [Get_text_contents manifest_path,
                       Run [''run'', script_name] working_dir]\<rparr>))
            else (Inr (), \<lparr>world = w1, calls = calls s @ [Get_text_contents manifest_path]\<rparr>)) \<and>
         NodejsNpmScriptAction_execute json_loads working_dir manifest_path [] subprocess_npm osutils s =
           (if [] \<in> set (map fst sc) then
              (case run subprocess_npm [''run'', []] working_dir w1 of
                 (Inl e, w2) \<Rightarrow>
                   (Inl (script_handler manifest_path e),
                    \<lparr>world = w2, calls = calls s @ [Get_text_contents manifest_path,
                       Run [''run'', []] working_dir]\<rparr>)
               | (Inr out, w2) \<Rightarrow>
                   (Inr (),
                    \<lparr>world = w2, calls = calls s @ [Get_text_contents manifest_path,
                       Run [''run'', []] working_dir]\<rparr>))
            else (Inr (), \<lparr>world = w1, calls = calls s @ [Get_text_contents manifest_path]\<rparr>))"
proof -
  have "script_declared (PyDict kvs) name = Inr (name \<in> set (map fst sc))" for name
    using assms(3) by (rule script_declared_scripts)
  then show ?thesis
    by (simp add: script_unfold [OF assms(1)] assms(2))
qed

text \<open>
  Three runs with the empty name: on a manifest that declares the script \<^verbatim>\<open>""\<close>, with
  an executor that returns and with one that raises, and on a manifest that declares
  \<^verbatim>\<open>build\<close> only.
\<close>

theorem script_empty_name_not_special_witness:
  "NodejsNpmScriptAction_execute stub_json_loads ''artifacts'' ''project/package.json'' []
     (stub_npm (Inr ''done'')) (stub_osutils (Inr (manifest_scripts [] ''true'')) (Inr ())) fresh
     = (Inr (), \<lparr>world = [''artifacts''],
          calls = [Get_text_contents ''project/package.json'', Run [''run'', []] ''artifacts'']\<rparr>) \<and>
   NodejsNpmScriptAction_execute stub_json_loads ''artifacts'' ''project/package.json'' []
     (stub_npm (Inl (NpmExecutionError ''NPM Failed: exit 1'')))
     (stub_osutils (Inr (manifest_scripts [] ''true'')) (Inr ())) fresh
     = (Inl (ActionFailedError ''NPM Failed: exit 1''), \<lparr>world = [''artifacts''],
          calls = [Get_text_contents ''project/package.json'', Run [''run'', []] ''artifacts'']\<rparr>) \<and>
   NodejsNpmScriptAction_execute stub_json_loads ''artifacts'' ''project/package.json'' []
     (stub_npm (Inr ''done'')) (stub_osutils (Inr (manifest_scripts ''build'' ''tsc'')) (Inr ())) fresh
     = (Inr (), \<lparr>world = [], calls = [Get_text_contents ''project/package.json'']\<rparr>)"
proof -
  have rd: "get_text_contents (stub_osutils (Inr c) (Inr ())) ''project/package.json'' (world fresh)
      = (Inr c, [])" for c
    by (simp add: stubs)
  have p1: "stub_json_loads (manifest_scripts [] ''true'')
      = Inr (PyDict [(''scripts'', PyDict [([], PyStr ''true'')])])"
    by (simp add: stubs)
  have s1: "map_of [(''scripts'', PyDict [([], PyStr ''true'')])] ''scripts''
      = Some (PyDict [([], PyStr ''true'')])"
    by simp
  have p2: "stub_json_loads (manifest_scripts ''build'' ''tsc'')
      = Inr (PyDict [(''scripts'', PyDict [(''build'', PyStr ''tsc'')])])"
    by (simp add: stubs)
  have s2: "map_of [(''scripts'', PyDict [(''build'', PyStr ''tsc'')])] ''scripts''
      = Some (PyDict [(''build'', PyStr ''tsc'')])"
    by simp
  from script_empty_name_not_special [where json_loads = stub_json_loads
      and working_dir = "''artifacts''" and subprocess_npm = "stub_npm (Inr ''done'')",
      OF rd p1 s1, THEN conjunct2]
    script_empty_name_not_special [where json_loads = stub_json_loads
      and working_dir = "''artifacts''"
      and subprocess_npm = "stub_npm (Inl (NpmExecutionError ''NPM Failed: exit 1''))",
      OF rd p1 s1, THEN conjunct2]
    script_empty_name_not_special [where json_loads = stub_json_loads
      and working_dir = "''artifacts''" and subprocess_npm = "stub_npm (Inr ''done'')",
      OF rd p2 s2, THEN conjunct2]
  show ?thesis by (simp add: stubs)
qed

subsection \<open>The script action: a manifest that is not an object\<close>

text \<open>
  C9: when the manifest is valid JSON but its top-level value is not an object, or the
  value under its \<^verbatim>\<open>scripts\<close> key is not an object, \<^verbatim>\<open>NodejsNpmScriptAction.execute\<close>
  raises the \<^verbatim>\<open>AttributeError\<close> of the failed \<^verbatim>\<open>.keys()\<close>, which no clause catches:
  it leaves the action as an \<^verbatim>\<open>AttributeError\<close>, not as an \<^verbatim>\<open>ActionFailedError\<close>.
\<close>

theorem script_non_object_attribute_error:
  assumes "get_text_contents osutils manifest_path (world s) = (Inr text, w1)"
    and "json_loads text = Inr v"
    and "(\<forall>kvs. v \<noteq> PyDict kvs) \<or>
         (\<exists>kvs u. v = PyDict kvs \<and> map_of kvs ''scripts'' = Some u \<and> (\<forall>sc. u \<noteq> PyDict sc))"
  shows "\<exists>m. NodejsNpmScriptAction_execute json_loads working_dir manifest_path script_name subprocess_npm osutils s =
           (Inl (AttributeError m), \<lparr>world = w1, calls = calls s @ [Get_text_contents manifest_path]\<rparr>)"
proof -
  from assms(3) obtain m where "script_declared v script_name = Inl (AttributeError m)"
    by (auto simp: script_declared_top_not_dict script_declared_scripts_not_dict)
  then show ?thesis
    by (simp add: script_unfold [OF assms(1)] assms(2))
qed

text \<open>Two runs: on the manifest \<^verbatim>\<open>[]\<close> and on the manifest \<^verbatim>\<open>{"scripts": null}\<close>.\<close>

theorem script_non_object_attribute_error_witness:
  "(\<exists>m. NodejsNpmScriptAction_execute stub_json_loads ''artifacts'' ''project/package.json'' ''build''
       (stub_npm (Inr ''done'')) (stub_osutils (Inr ''[]'') (Inr ())) fresh
       = (Inl (AttributeError m), \<lparr>world = [], calls = [Get_text_contents ''project/package.json'']\<rparr>)) \<and>
   (\<exists>m. NodejsNpmScriptAction_execute stub_json_loads ''artifacts'' ''project/package.json'' ''build''
       (stub_npm (Inr ''done'')) (stub_osutils (Inr (''{'' @ dq ''scripts'' @ '': null}'')) (Inr ())) fresh
       = (Inl (AttributeError m), \<lparr>world = [], calls = [Get_text_contents ''project/package.json'']\<rparr>))"
proof -
  have rd: "get_text_contents (stub_osutils (Inr c) (Inr ())) ''project/package.json'' (world fresh)
      = (Inr c, [])" for c
    by (simp add: stubs)
  have p1: "stub_json_loads ''[]'' = Inr (PyList [])"
    by (simp add: stubs)
  have c1: "(\<forall>kvs. PyList [] \<noteq> PyDict kvs) \<or>
      (\<exists>kvs u. PyList [] = PyDict kvs \<and> map_of kvs ''scripts'' = Some u \<and> (\<forall>sc. u \<noteq> PyDict sc))"
    by simp
  have p2: "stub_json_loads (''{'' @ dq ''scripts'' @ '': null}'') = Inr (PyDict [(''scripts'', PyNone)])"
    by (simp add: stubs)
  have c2: "(\<forall>kvs. PyDict [(''scripts'', PyNone)] \<noteq> PyDict kvs) \<or>
      (\<exists>kvs u. PyDict [(''scripts'', PyNone)] = PyDict kvs \<and> map_of kvs ''scripts'' = Some u \<and>
         (\<forall>sc. u \<noteq> PyDict sc))"
    by simp
  from script_non_object_attribute_error [where json_loads = stub_json_loads, OF rd p1 c1] script_non_object_attribute_error [where json_loads = stub_json_loads, OF rd p2 c2]
  show ?thesis by (simp add: fresh_def)
qed

subsection \<open>The script action: reading and parsing come first\<close>

text \<open>
  The claim C10 says that a manifest that is not valid JSON causes the parse-fault
  \<^verbatim>\<open>ActionFailedError\<close> also when the requested script is absent. On the text of 2000
  unclosed brackets, which declares no script \<^verbatim>\<open>test\<close>, \<^verbatim>\<open>json.loads\<close> raises a
  \<^verbatim>\<open>RecursionError\<close>, and so does the action: it raises no \<^verbatim>\<open>ActionFailedError\<close>.
\<close>

theorem script_absent_deep_nesting_escapes:
  "NodejsNpmScriptAction_execute stub_json_loads_deep ''artifacts'' ''project/package.json'' ''test''
     (stub_npm (Inr ''done'')) (stub_osutils (Inr unclosed_brackets) (Inr ())) fresh
     = (Inl (RecursionError
          ''maximum recursion depth exceeded while decoding a JSON array from a unicode string''),
        \<lparr>world = [], calls = [Get_text_contents ''project/package.json'']\<rparr>)"
  by (simp add: NodejsNpmScriptAction_execute_def exec_defs stub_osutils_def stub_json_loads_deep_def
        fresh_def)

text \<open>
  C10, amended: \<^verbatim>\<open>NodejsNpmScriptAction.execute\<close> reads and parses the manifest before it
  looks for the script. Its first call is always the read of the manifest; a manifest on
  whose text \<^verbatim>\<open>json.loads\<close> raises a \<^verbatim>\<open>ValueError\<close> makes it raise the parse failure
  whatever the script name, declared or not; and it returns without raising only when the
  manifest was read and \<^verbatim>\<open>json.loads\<close> returned a value.
\<close>

theorem script_reads_and_parses_first:
  "(\<exists>cs. calls (snd (NodejsNpmScriptAction_execute json_loads working_dir manifest_path script_name
        subprocess_npm osutils s)) = calls s @ Get_text_contents manifest_path # cs) \<and>
   (\<forall>text w1 diagnostic.
      get_text_contents osutils manifest_path (world s) = (Inr text, w1) \<and>
      json_loads text = Inl (ValueError diagnostic) \<longrightarrow>
      fst (NodejsNpmScriptAction_execute json_loads working_dir manifest_path script_name subprocess_npm osutils s)
        = Inl (ActionFailedError (manifest_path @ '' is not valid json: '' @ diagnostic))) \<and>
   (fst (NodejsNpmScriptAction_execute json_loads working_dir manifest_path script_name subprocess_npm osutils s)
        = Inr () \<longrightarrow>
      (\<exists>text w1 parsed_json.
         get_text_contents osutils manifest_path (world s) = (Inr text, w1) \<and>
         json_loads text = Inr parsed_json))"
proof (cases "get_text_contents osutils manifest_path (world s)")
  case (Pair r w1)
  show ?thesis
  proof (cases r)
    case (Inl e)
    with Pair show ?thesis
      by (simp add: script_read_fails)
  next
    case (Inr contents)
    with Pair have rd: "get_text_contents osutils manifest_path (world s) = (Inr contents, w1)"
      by simp
    show ?thesis
      by (cases "run subprocess_npm [''run'', script_name] working_dir w1")
         (auto simp: script_unfold [OF rd] rd split: sum.splits)
  qed
qed

text \<open>
  A run on the truncated manifest \<^verbatim>\<open>{\<close>, which raises, and a run that returns, on a
  manifest that was read and parsed.
\<close>

theorem script_reads_and_parses_first_witness:
  "fst (NodejsNpmScriptAction_execute stub_json_loads ''artifacts'' ''project/package.json'' ''build''
     (stub_npm (Inr ''done'')) (stub_osutils (Inr ''{'') (Inr ())) fresh)
     = Inl (ActionFailedError (''project/package.json is not valid json: '' @
          ''Expecting property name enclosed in double quotes: line 1 column 2 (char 1)'')) \<and>
   fst (NodejsNpmScriptAction_execute stub_json_loads ''artifacts'' ''project/package.json'' ''build''
     (stub_npm (Inr ''done'')) (stub_osutils (Inr ''{}'') (Inr ())) fresh) = Inr () \<and>
   (\<exists>contents w1 parsed_json.
      get_text_contents (stub_osutils (Inr ''{}'') (Inr ())) ''project/package.json'' (world fresh)
        = (Inr contents, w1) \<and>
      stub_json_loads contents = Inr parsed_json)"
proof -
  have bad: "get_text_contents (stub_osutils (Inr ''{'') (Inr ())) ''project/package.json'' (world fresh)
        = (Inr ''{'', []) \<and>
      stub_json_loads ''{''
        = Inl (ValueError ''Expecting property name enclosed in double quotes: line 1 column 2 (char 1)'')"
    by (simp add: stubs)
  have ok: "fst (NodejsNpmScriptAction_execute stub_json_loads ''artifacts'' ''project/package.json'' ''build''
     (stub_npm (Inr ''done'')) (stub_osutils (Inr ''{}'') (Inr ())) fresh) = Inr ()"
    by (simp add: NodejsNpmScriptAction_execute_def script_declared_def exec_defs stubs)
  from script_reads_and_parses_first [where json_loads = stub_json_loads,
      THEN conjunct2, THEN conjunct1, rule_format, OF bad]
    script_reads_and_parses_first [where json_loads = stub_json_loads,
      THEN conjunct2, THEN conjunct2, THEN mp, OF ok] ok
  show ?thesis by simp
qed

end
